theory Spec2Isabelle
  imports Complex_Main
begin

section \<open>Numbers: numpy float64 values\<close>

text \<open>
  Every number the three components handle is a numpy \<^verbatim>\<open>float64\<close>. A finite value is
  modelled as a real number (\<open>Fin\<close>); the three special values, which numpy produces
  instead of raising (a division by zero, the square root of a negative number, a
  shifted or differenced first row), are constructors of their own. What the model leaves
  out is rounding, overflow of finite values and the sign of zero (a zero divisor counts
  as \<open>+0.0\<close>). The properties below are therefore either equalities between two
  readings of the same computation, which use no law of arithmetic, or statements about
  values that float64 computes exactly.
\<close>

datatype npfloat = Fin real | PInf | NInf | NaN

instantiation npfloat :: "{plus, minus, uminus, times, inverse, abs, ord}"
begin

fun uminus_npfloat :: "npfloat \<Rightarrow> npfloat" where
  "- (Fin a) = Fin (- a)"
| "- PInf = NInf"
| "- NInf = PInf"
| "- NaN = NaN"

fun plus_npfloat :: "npfloat \<Rightarrow> npfloat \<Rightarrow> npfloat" where
  "Fin a + Fin b = Fin (a + b)"
| "NaN + y = NaN"
| "x + NaN = NaN"
| "PInf + NInf = NaN"
| "NInf + PInf = NaN"
| "PInf + y = PInf"
| "x + PInf = PInf"
| "NInf + y = NInf"
| "x + NInf = NInf"

definition minus_npfloat :: "npfloat \<Rightarrow> npfloat \<Rightarrow> npfloat" where
  "minus_npfloat x y = x + (- y)"

fun times_npfloat :: "npfloat \<Rightarrow> npfloat \<Rightarrow> npfloat" where
  "Fin a * Fin b = Fin (a * b)"
| "NaN * y = NaN"
| "x * NaN = NaN"
| "Fin a * PInf = (if a = 0 then NaN else if 0 < a then PInf else NInf)"
| "Fin a * NInf = (if a = 0 then NaN else if 0 < a then NInf else PInf)"
| "PInf * Fin b = (if b = 0 then NaN else if 0 < b then PInf else NInf)"
| "NInf * Fin b = (if b = 0 then NaN else if 0 < b then NInf else PInf)"
| "PInf * PInf = PInf"
| "PInf * NInf = NInf"
| "NInf * PInf = NInf"
| "NInf * NInf = PInf"

fun divide_npfloat :: "npfloat \<Rightarrow> npfloat \<Rightarrow> npfloat" where
  "divide_npfloat (Fin a) (Fin b) =
     (if b = 0 then (if a = 0 then NaN else if 0 < a then PInf else NInf)
      else Fin (a / b))"
| "divide_npfloat NaN y = NaN"
| "divide_npfloat x NaN = NaN"
| "divide_npfloat (Fin a) PInf = Fin 0"
| "divide_npfloat (Fin a) NInf = Fin 0"
| "divide_npfloat PInf (Fin b) = (if 0 \<le> b then PInf else NInf)"
| "divide_npfloat NInf (Fin b) = (if 0 \<le> b then NInf else PInf)"
| "divide_npfloat PInf PInf = NaN"
| "divide_npfloat PInf NInf = NaN"
| "divide_npfloat NInf PInf = NaN"
| "divide_npfloat NInf NInf = NaN"

fun inverse_npfloat :: "npfloat \<Rightarrow> npfloat" where
  "inverse_npfloat (Fin a) = (if a = 0 then PInf else Fin (1 / a))"
| "inverse_npfloat PInf = Fin 0"
| "inverse_npfloat NInf = Fin 0"
| "inverse_npfloat NaN = NaN"

fun abs_npfloat :: "npfloat \<Rightarrow> npfloat" where
  "\<bar>Fin a\<bar> = Fin \<bar>a\<bar>"
| "\<bar>PInf\<bar> = PInf"
| "\<bar>NInf\<bar> = PInf"
| "\<bar>NaN\<bar> = NaN"

text \<open>Every comparison with NaN is false.\<close>

fun less_npfloat :: "npfloat \<Rightarrow> npfloat \<Rightarrow> bool" where
  "Fin a < Fin b \<longleftrightarrow> a < b"
| "NaN < y \<longleftrightarrow> False"
| "x < NaN \<longleftrightarrow> False"
| "x < NInf \<longleftrightarrow> False"
| "PInf < y \<longleftrightarrow> False"
| "NInf < y \<longleftrightarrow> True"
| "x < PInf \<longleftrightarrow> True"

fun less_eq_npfloat :: "npfloat \<Rightarrow> npfloat \<Rightarrow> bool" where
  "Fin a \<le> Fin b \<longleftrightarrow> a \<le> b"
| "NaN \<le> y \<longleftrightarrow> False"
| "x \<le> NaN \<longleftrightarrow> False"
| "NInf \<le> y \<longleftrightarrow> True"
| "x \<le> PInf \<longleftrightarrow> True"
| "x \<le> NInf \<longleftrightarrow> False"
| "PInf \<le> y \<longleftrightarrow> False"

instance ..

end

text \<open>\<^verbatim>\<open>np.sqrt\<close>: NaN (with a warning, no exception) below zero.\<close>

fun np_sqrt :: "npfloat \<Rightarrow> npfloat" where
  "np_sqrt (Fin a) = (if a < 0 then NaN else Fin (sqrt a))"
| "np_sqrt PInf = PInf"
| "np_sqrt NInf = NaN"
| "np_sqrt NaN = NaN"

fun isna :: "npfloat \<Rightarrow> bool" where
  "isna NaN = True"
| "isna x = False"

fun isfinite :: "npfloat \<Rightarrow> bool" where
  "isfinite (Fin a) = True"
| "isfinite x = False"

text \<open>
  The largest finite float64. A sum of two finite values whose exact result is within this
  bound is a finite float64 again; beyond it the code's sum is infinite where the model's
  is not.
\<close>

definition float64_max :: real where
  "float64_max = (2 - 1 / 2 ^ 52) * 2 ^ 1023"

section \<open>Adaptive Regression Filter (kalman.py)\<close>

datatype error = IndexError

text \<open>
  The instance fields of \<^verbatim>\<open>KalmanFilterReg\<close>. \<^verbatim>\<open>__init__\<close> stores the two
  configuration scalars as they come, with no check, and sets the initial estimates.
\<close>

record KalmanFilterReg =
  delta :: npfloat
  R :: npfloat
  state_mean :: npfloat
  state_cov :: npfloat

definition KalmanFilterReg_init :: "npfloat \<Rightarrow> npfloat \<Rightarrow> KalmanFilterReg" where
  "KalmanFilterReg_init q r = \<lparr>delta = q, R = r, state_mean = Fin 0, state_cov = Fin 1\<rparr>"

text \<open>The three output columns of \<^verbatim>\<open>process_data\<close>, a DataFrame.\<close>

record kf_frame =
  beta :: "npfloat list"
  spread :: "npfloat list"
  spread_var :: "npfloat list"

text \<open>
  The body of the recursive loop (predict step and update step) for the observation
  \<open>x = X[t]\<close>, \<open>y = Y[t]\<close>: it writes the two state fields of the instance and yields
  the innovation, its variance and the gain.
\<close>

definition kf_update ::
  "KalmanFilterReg \<Rightarrow> npfloat \<Rightarrow> npfloat \<Rightarrow> KalmanFilterReg \<times> npfloat \<times> npfloat \<times> npfloat" where
  "kf_update self x y =
     (let pred_state = state_mean self;
          pred_cov = state_cov self + delta self;
          H = x;
          y_pred = H * pred_state;
          err = y - y_pred;
          S = H * pred_cov * H + R self;
          K = (pred_cov * H) / S;
          self1 = self\<lparr>state_mean := pred_state + K * err\<rparr>;
          self2 = self1\<lparr>state_cov := pred_cov * (Fin 1 - K * H)\<rparr>
      in (self2, err, S, K))"

text \<open>
  \<^verbatim>\<open>for t in range(n)\<close>, with the three output arrays written by index. \<open>X[t]\<close> is
  always in range (\<open>n = len(x_series)\<close>); \<open>Y[t]\<close> raises IndexError when the second
  series is shorter.
\<close>

function process_loop ::
  "KalmanFilterReg \<Rightarrow> npfloat list \<Rightarrow> npfloat list \<Rightarrow> nat \<Rightarrow> nat \<Rightarrow>
   npfloat list \<Rightarrow> npfloat list \<Rightarrow> npfloat list \<Rightarrow>
   error + (KalmanFilterReg \<times> npfloat list \<times> npfloat list \<times> npfloat list)" where
  "process_loop self X Y n t beta_estimates spread_errors error_vars =
     (if t < n then
        (if length Y \<le> t then Inl IndexError
         else (case kf_update self (X ! t) (Y ! t) of
                 (self', err, S, K) \<Rightarrow>
                   process_loop self' X Y n (Suc t)
                     (beta_estimates[t := state_mean self'])
                     (spread_errors[t := err])
                     (error_vars[t := S])))
      else Inr (self, beta_estimates, spread_errors, error_vars))"
  by pat_completeness auto
termination
  by (relation "measure (\<lambda>(self, X, Y, n, t, be, se, ev). n - t)") auto

declare process_loop.simps [simp del]

definition process_data ::
  "KalmanFilterReg \<Rightarrow> npfloat list \<Rightarrow> npfloat list \<Rightarrow> error + (KalmanFilterReg \<times> kf_frame)" where
  "process_data self x_series y_series =
     (let n = length x_series;
          zeros = replicate n (Fin 0)
      in case process_loop self x_series y_series n 0 zeros zeros zeros of
           Inl e \<Rightarrow> Inl e
         | Inr (self', beta_estimates, spread_errors, error_vars) \<Rightarrow>
             Inr (self', \<lparr>beta = beta_estimates, spread = spread_errors,
                          spread_var = error_vars\<rparr>))"

text \<open>
  The specification's reading of the filter: a left fold of the per-step recursion over
  the paired observations, from mean 0 and covariance 1, collecting what each step emits.
\<close>

definition spec_filter_step ::
  "npfloat \<Rightarrow> npfloat \<Rightarrow> (npfloat \<times> npfloat) \<times> kf_frame \<Rightarrow> npfloat \<times> npfloat \<Rightarrow>
   (npfloat \<times> npfloat) \<times> kf_frame" where
  "spec_filter_step q r acc obs =
     (case acc of ((mean, cov), out) \<Rightarrow>
      case obs of (x, y) \<Rightarrow>
        let predicted_cov = cov + q;
            err = y - x * mean;
            S = x * predicted_cov * x + r;
            K = predicted_cov * x / S;
            new_mean = mean + K * err;
            new_cov = predicted_cov * (Fin 1 - K * x)
        in ((new_mean, new_cov),
            \<lparr>beta = beta out @ [new_mean], spread = spread out @ [err],
             spread_var = spread_var out @ [S]\<rparr>))"

definition empty_frame :: kf_frame where
  "empty_frame = \<lparr>beta = [], spread = [], spread_var = []\<rparr>"

definition spec_filter_fold :: "npfloat \<Rightarrow> npfloat \<Rightarrow> npfloat list \<Rightarrow> npfloat list \<Rightarrow> kf_frame" where
  "spec_filter_fold q r X Y =
     snd (foldl (spec_filter_step q r)
            ((Fin 0, Fin 1), empty_frame) (zip X Y))"


text \<open>
  Two calls of \<^verbatim>\<open>process_data\<close> in succession on one instance, with the same inputs: the
  second call finds the instance as the first one left it.
\<close>

definition process_data_twice ::
  "KalmanFilterReg \<Rightarrow> npfloat list \<Rightarrow> npfloat list \<Rightarrow> error + (kf_frame \<times> kf_frame)" where
  "process_data_twice self x_series y_series =
     (case process_data self x_series y_series of
        Inl e \<Rightarrow> Inl e
      | Inr (self1, first_run) \<Rightarrow>
          (case process_data self1 x_series y_series of
             Inl e \<Rightarrow> Inl e
           | Inr (self2, second_run) \<Rightarrow> Inr (first_run, second_run)))"

text \<open>The rows of one frame followed by the rows of another.\<close>

definition frame_append :: "kf_frame \<Rightarrow> kf_frame \<Rightarrow> kf_frame" where
  "frame_append a b =
     \<lparr>beta = beta a @ beta b, spread = spread a @ spread b,
      spread_var = spread_var a @ spread_var b\<rparr>"

section \<open>Signal Generator (strategy.py)\<close>

record StrategyAnalyzer =
  entry_threshold :: npfloat
  exit_threshold :: npfloat

text \<open>\<^verbatim>\<open>generate_signals\<close> copies the filter's frame and adds six columns.\<close>

record signal_frame = kf_frame +
  z_score :: "npfloat list"
  long_entry :: "bool list"
  short_entry :: "bool list"
  exit_long :: "bool list"
  exit_short :: "bool list"
  position :: "npfloat list"

text \<open>
  The body of the position loop: the \<^verbatim>\<open>if\<close>/\<^verbatim>\<open>elif\<close> chain on the integer
  \<^verbatim>\<open>current_pos\<close> (0 flat, 1 long, -1 short); a branch whose test fails leaves it as
  it is.
\<close>

definition signal_step :: "StrategyAnalyzer \<Rightarrow> int \<Rightarrow> npfloat \<Rightarrow> int" where
  "signal_step self current_pos z =
     (if current_pos = 0 then
        (if z < - entry_threshold self then 1
         else if z > entry_threshold self then - 1
         else current_pos)
      else if current_pos = 1 then
        (if z \<ge> - exit_threshold self then 0 else current_pos)
      else if current_pos = - 1 then
        (if z \<le> exit_threshold self then 0 else current_pos)
      else current_pos)"

function signal_loop ::
  "StrategyAnalyzer \<Rightarrow> npfloat list \<Rightarrow> nat \<Rightarrow> nat \<Rightarrow> int \<Rightarrow> npfloat list \<Rightarrow> npfloat list" where
  "signal_loop self z_scores n t current_pos positions =
     (if t < n then
        (let z = z_scores ! t;
             current_pos' = signal_step self current_pos z
         in signal_loop self z_scores n (Suc t) current_pos'
              (positions[t := Fin (of_int current_pos')]))
      else positions)"
  by pat_completeness auto
termination
  by (relation "measure (\<lambda>(self, z_scores, n, t, current_pos, positions). n - t)") auto

declare signal_loop.simps [simp del]

text \<open>
  The z-score column is the element-wise quotient of two columns of the same frame, so it
  has \<^verbatim>\<open>len(df)\<close> entries; neither \<^verbatim>\<open>np.sqrt\<close> nor the division raises.
\<close>

definition generate_signals :: "StrategyAnalyzer \<Rightarrow> kf_frame \<Rightarrow> signal_frame" where
  "generate_signals self kf_results =
     (let z_scores = map2 (\<lambda>s v. s / np_sqrt v) (spread kf_results) (spread_var kf_results);
          n = length z_scores
      in \<lparr>beta = beta kf_results,
          spread = spread kf_results,
          spread_var = spread_var kf_results,
          z_score = z_scores,
          long_entry = map (\<lambda>z. z < - entry_threshold self) z_scores,
          short_entry = map (\<lambda>z. z > entry_threshold self) z_scores,
          exit_long = map (\<lambda>z. z \<ge> - exit_threshold self) z_scores,
          exit_short = map (\<lambda>z. z \<le> exit_threshold self) z_scores,
          position = signal_loop self z_scores n 0 0 (replicate n (Fin 0))\<rparr>)"

text \<open>
  The specification's reading: an explicit three-state machine, its transition table, and
  the positions as the fold of the transition over the z-scores from Flat, each step
  recording the state it has just entered.
\<close>

datatype pos_state = Flat | Long | Short

fun spec_transition :: "npfloat \<Rightarrow> npfloat \<Rightarrow> pos_state \<Rightarrow> npfloat \<Rightarrow> pos_state" where
  "spec_transition entry exit Flat z =
     (if z < - entry then Long else if z > entry then Short else Flat)"
| "spec_transition entry exit Long z = (if z \<ge> - exit then Flat else Long)"
| "spec_transition entry exit Short z = (if z \<le> exit then Flat else Short)"

fun spec_position :: "pos_state \<Rightarrow> npfloat" where
  "spec_position Flat = Fin 0"
| "spec_position Long = Fin 1"
| "spec_position Short = Fin (- 1)"

definition spec_signal_step ::
  "npfloat \<Rightarrow> npfloat \<Rightarrow> pos_state \<times> npfloat list \<Rightarrow> npfloat \<Rightarrow> pos_state \<times> npfloat list" where
  "spec_signal_step entry exit acc z =
     (case acc of (st, out) \<Rightarrow>
        let st' = spec_transition entry exit st z in (st', out @ [spec_position st']))"

definition spec_signal_fold :: "npfloat \<Rightarrow> npfloat \<Rightarrow> npfloat list \<Rightarrow> npfloat list" where
  "spec_signal_fold entry exit zs = snd (foldl (spec_signal_step entry exit) (Flat, []) zs)"

text \<open>
  The states the machine enters, one per z-score, and the integer the source keeps for
  each state.
\<close>

fun spec_states :: "npfloat \<Rightarrow> npfloat \<Rightarrow> pos_state \<Rightarrow> npfloat list \<Rightarrow> pos_state list" where
  "spec_states entry exit st [] = []"
| "spec_states entry exit st (z # zs) =
     spec_transition entry exit st z # spec_states entry exit (spec_transition entry exit st z) zs"

fun pos_int :: "pos_state \<Rightarrow> int" where
  "pos_int Flat = 0"
| "pos_int Long = 1"
| "pos_int Short = - 1"

section \<open>Performance Engine (backtester.py)\<close>

subsection \<open>The pandas operations it uses\<close>

text \<open>\<^verbatim>\<open>Series.diff()\<close> and \<^verbatim>\<open>Series.shift(1)\<close>: the first row has no predecessor and is NaN.\<close>

definition diff_pd :: "npfloat list \<Rightarrow> npfloat list" where
  "diff_pd xs = (case xs of [] \<Rightarrow> [] | x # rest \<Rightarrow> NaN # map2 (\<lambda>a b. a - b) rest xs)"

definition shift_pd :: "npfloat list \<Rightarrow> npfloat list" where
  "shift_pd xs = (case xs of [] \<Rightarrow> [] | x # rest \<Rightarrow> NaN # butlast xs)"

definition fillna :: "npfloat \<Rightarrow> npfloat list \<Rightarrow> npfloat list" where
  "fillna v xs = map (\<lambda>x. if isna x then v else x) xs"

text \<open>
  \<^verbatim>\<open>cumsum\<close>, \<^verbatim>\<open>cummax\<close>, \<^verbatim>\<open>mean\<close>, \<^verbatim>\<open>std\<close> and \<^verbatim>\<open>min\<close> skip NaN
  (\<^verbatim>\<open>skipna=True\<close>): the running aggregates leave a NaN row NaN and carry on; the
  reductions work on the rows that are left. \<^verbatim>\<open>std\<close> is the sample deviation
  (\<^verbatim>\<open>ddof=1\<close>), NaN when fewer than two rows are left.
\<close>

fun cumsum_from :: "npfloat \<Rightarrow> npfloat list \<Rightarrow> npfloat list" where
  "cumsum_from acc [] = []"
| "cumsum_from acc (x # xs) =
     (if isna x then NaN # cumsum_from acc xs else (acc + x) # cumsum_from (acc + x) xs)"

definition cumsum_pd :: "npfloat list \<Rightarrow> npfloat list" where
  "cumsum_pd xs = cumsum_from (Fin 0) xs"

fun cummax_from :: "npfloat \<Rightarrow> npfloat list \<Rightarrow> npfloat list" where
  "cummax_from acc [] = []"
| "cummax_from acc (x # xs) =
     (if isna x then NaN # cummax_from acc xs
      else (let m = (if acc < x then x else acc) in m # cummax_from m xs))"

definition cummax_pd :: "npfloat list \<Rightarrow> npfloat list" where
  "cummax_pd xs = cummax_from NInf xs"

definition dropna :: "npfloat list \<Rightarrow> npfloat list" where
  "dropna xs = filter (\<lambda>x. \<not> isna x) xs"

definition sum_np :: "npfloat list \<Rightarrow> npfloat" where
  "sum_np xs = foldl (+) (Fin 0) xs"

definition mean_pd :: "npfloat list \<Rightarrow> npfloat" where
  "mean_pd xs =
     (let vs = dropna xs; count = length vs
      in if count = 0 then NaN else sum_np vs / Fin (real count))"

definition std_pd :: "npfloat list \<Rightarrow> npfloat" where
  "std_pd xs =
     (let vs = dropna xs; count = length vs
      in if count \<le> 1 then NaN
         else (let avg = sum_np vs / Fin (real count);
                   sqr = map (\<lambda>v. (avg - v) * (avg - v)) vs
               in np_sqrt (sum_np sqr / Fin (real (count - 1)))))"

definition min_pd :: "npfloat list \<Rightarrow> npfloat" where
  "min_pd xs =
     (let vs = dropna xs
      in if vs = [] then NaN else foldl (\<lambda>m x. if x < m then x else m) PInf vs)"

subsection \<open>The backtester\<close>

record VectorizedBacktester =
  initial_capital :: npfloat
  cost_bps :: npfloat

text \<open>
  \<^verbatim>\<open>main.py\<close> merges the two price columns into the signal frame before the
  backtest; \<^verbatim>\<open>run\<close> reads them under the names \<^verbatim>\<open>ticker_x\<close> and \<^verbatim>\<open>ticker_y\<close>.
\<close>

record priced_frame = signal_frame +
  price_x :: "npfloat list"
  price_y :: "npfloat list"

record backtest_frame = priced_frame +
  dY :: "npfloat list"
  dX :: "npfloat list"
  strategy_pnl_daily :: "npfloat list"
  trades :: "npfloat list"
  costs :: "npfloat list"
  net_pnl :: "npfloat list"
  cumulative_pnl :: "npfloat list"

record backtest_result =
  equity_curve :: "npfloat list"
  total_pnl :: npfloat
  sharpe_ratio :: npfloat
  max_drawdown :: npfloat
  full_df :: backtest_frame

definition calculate_sharpe :: "npfloat list \<Rightarrow> npfloat" where
  "calculate_sharpe daily_pnl_series =
     (if std_pd daily_pnl_series = Fin 0 then Fin 0
      else np_sqrt (Fin 252) * (mean_pd daily_pnl_series / std_pd daily_pnl_series))"

definition calculate_drawdown :: "npfloat list \<Rightarrow> npfloat" where
  "calculate_drawdown equity =
     (let peak = cummax_pd equity;
          drawdown = map2 (\<lambda>a b. a - b) equity peak
      in min_pd drawdown)"

text \<open>Steps 1 to 4 of \<^verbatim>\<open>run\<close>: the frame with the seven computed columns.\<close>

definition run_df :: "VectorizedBacktester \<Rightarrow> priced_frame \<Rightarrow> backtest_frame" where
  "run_df self signals =
     (let dY_col = diff_pd (price_y signals);
          dX_col = diff_pd (price_x signals);
          pnl_col = map2 (\<lambda>a b. a * b) (shift_pd (position signals))
                      (map2 (\<lambda>a b. a - b) dY_col
                         (map2 (\<lambda>a b. a * b) (shift_pd (beta signals)) dX_col));
          trades_col = map abs (diff_pd (position signals));
          est_trade_value = map2 (\<lambda>a b. a + b) (price_y signals)
                              (map2 (\<lambda>a b. a * b) (beta signals) (price_x signals));
          costs_col = map (\<lambda>v. v * cost_bps self)
                        (map2 (\<lambda>a b. a * b) trades_col est_trade_value);
          net_col = map2 (\<lambda>a b. a - b) pnl_col (fillna (Fin 0) costs_col)
      in \<lparr>beta = beta signals,
          spread = spread signals,
          spread_var = spread_var signals,
          z_score = z_score signals,
          long_entry = long_entry signals,
          short_entry = short_entry signals,
          exit_long = exit_long signals,
          exit_short = exit_short signals,
          position = position signals,
          price_x = price_x signals,
          price_y = price_y signals,
          dY = dY_col,
          dX = dX_col,
          strategy_pnl_daily = pnl_col,
          trades = trades_col,
          costs = costs_col,
          net_pnl = net_col,
          cumulative_pnl = cumsum_pd net_col\<rparr>)"

text \<open>Step 5; \<^verbatim>\<open>.iloc[-1]\<close> raises IndexError on an empty frame.\<close>

definition run :: "VectorizedBacktester \<Rightarrow> priced_frame \<Rightarrow> error + backtest_result" where
  "run self signals =
     (let df = run_df self signals
      in if cumulative_pnl df = [] then Inl IndexError
         else Inr \<lparr>equity_curve = cumulative_pnl df,
                   total_pnl = last (cumulative_pnl df),
                   sharpe_ratio = calculate_sharpe (net_pnl df),
                   max_drawdown = calculate_drawdown (cumulative_pnl df),
                   full_df = df\<rparr>)"

text \<open>
  The frame \<^verbatim>\<open>main.py\<close> hands to the backtester: the signal frame with the two price
  columns attached.
\<close>

definition with_prices :: "signal_frame \<Rightarrow> npfloat list \<Rightarrow> npfloat list \<Rightarrow> priced_frame" where
  "with_prices signals px py =
     \<lparr>beta = beta signals,
      spread = spread signals,
      spread_var = spread_var signals,
      z_score = z_score signals,
      long_entry = long_entry signals,
      short_entry = short_entry signals,
      exit_long = exit_long signals,
      exit_short = exit_short signals,
      position = position signals,
      price_x = px,
      price_y = py\<rparr>"

text \<open>
  The specification's concrete scenario for the backtester (positions 0, 0, 1, 1, 0, hedge
  ratio 1 throughout, the two price series). The columns the scenario leaves open are
  those of a signal frame with these positions at entry 2 and exit 0.
\<close>

definition spec_scenario :: priced_frame where
  "spec_scenario =
     \<lparr>beta = [Fin 1, Fin 1, Fin 1, Fin 1, Fin 1],
      spread = [Fin 0, Fin 0, Fin (- 3), Fin (- 1), Fin 0],
      spread_var = [Fin 1, Fin 1, Fin 1, Fin 1, Fin 1],
      z_score = [Fin 0, Fin 0, Fin (- 3), Fin (- 1), Fin 0],
      long_entry = [False, False, True, False, False],
      short_entry = [False, False, False, False, False],
      exit_long = [True, True, False, False, True],
      exit_short = [True, True, True, True, True],
      position = [Fin 0, Fin 0, Fin 1, Fin 1, Fin 0],
      price_x = [Fin 5, Fin 5, Fin 6, Fin 6, Fin 6],
      price_y = [Fin 10, Fin 11, Fin 13, Fin 12, Fin 12]\<rparr>"

section \<open>Arithmetic of the special values\<close>

lemma minus_Fin [simp]: "Fin a - Fin b = Fin (a - b)"
  by (simp add: minus_npfloat_def)

lemma NaN_absorbs [simp]:
  "x + NaN = NaN" "NaN + x = NaN" "x * NaN = NaN" "NaN * x = NaN"
  "x / NaN = NaN" "NaN / x = NaN"
  by (cases x; simp)+

lemma minus_special [simp]:
  "x - NaN = NaN" "NaN - x = NaN" "x - PInf = x + NInf" "x - NInf = x + PInf"
  by (simp_all add: minus_npfloat_def)

lemma NaN_compares [simp]:
  "\<not> x < NaN" "\<not> NaN < x" "\<not> x \<le> NaN" "\<not> NaN \<le> x"
  by (cases x; simp)+

section \<open>The filter loop is the fold of the per-step recursion\<close>

lemma take_Suc_update:
  "t < length xs \<Longrightarrow> take (Suc t) (xs[t := v]) = take t xs @ [v]"
  by (simp add: take_Suc_conv_app_nth)

lemma kf_update_spec:
  assumes "kf_update self x y = (self', err, S, K)"
  shows "spec_filter_step (delta self) (R self) ((state_mean self, state_cov self), out) (x, y) =
     ((state_mean self', state_cov self'),
      \<lparr>beta = beta out @ [state_mean self'], spread = spread out @ [err],
       spread_var = spread_var out @ [S]\<rparr>)"
    and "self'\<lparr>state_mean := m, state_cov := c\<rparr> = self\<lparr>state_mean := m, state_cov := c\<rparr>"
    and "delta self' = delta self" and "R self' = R self"
  using assms by (auto simp add: kf_update_def spec_filter_step_def Let_def)

lemma process_loop_fold:
  assumes "t \<le> n" "length X = n" "length Y = n"
    "length be = n" "length se = n" "length ev = n"
  shows "process_loop self X Y n t be se ev =
    (case foldl (spec_filter_step (delta self) (R self))
            ((state_mean self, state_cov self),
             \<lparr>beta = take t be, spread = take t se, spread_var = take t ev\<rparr>)
            (drop t (zip X Y)) of
       ((m, c), out) \<Rightarrow>
         Inr (self\<lparr>state_mean := m, state_cov := c\<rparr>, beta out, spread out, spread_var out))"
  using assms
proof (induction "n - t" arbitrary: t self be se ev)
  case 0
  then have "t = n" by simp
  with 0 show ?case
    by (simp add: process_loop.simps)
next
  case (Suc k)
  then have lt: "t < n" by simp
  obtain self' err S K where upd: "kf_update self (X ! t) (Y ! t) = (self', err, S, K)"
    using prod_cases4 by blast
  note sp = kf_update_spec [OF upd]
  have dr: "drop t (zip X Y) = (X ! t, Y ! t) # drop (Suc t) (zip X Y)"
    using lt Suc.prems by (simp add: Cons_nth_drop_Suc [symmetric])
  have "process_loop self X Y n t be se ev =
        process_loop self' X Y n (Suc t) (be[t := state_mean self']) (se[t := err]) (ev[t := S])"
    using lt Suc.prems upd by (subst process_loop.simps) simp
  also have "\<dots> = (case foldl (spec_filter_step (delta self') (R self'))
            ((state_mean self', state_cov self'),
             \<lparr>beta = take (Suc t) (be[t := state_mean self']), spread = take (Suc t) (se[t := err]),
              spread_var = take (Suc t) (ev[t := S])\<rparr>)
            (drop (Suc t) (zip X Y)) of
       ((m, c), out) \<Rightarrow>
         Inr (self'\<lparr>state_mean := m, state_cov := c\<rparr>, beta out, spread out, spread_var out))"
    using Suc.hyps(2) lt Suc.prems by (intro Suc.hyps(1)) simp_all
  also have "\<dots> = (case foldl (spec_filter_step (delta self) (R self))
            ((state_mean self, state_cov self),
             \<lparr>beta = take t be, spread = take t se, spread_var = take t ev\<rparr>)
            (drop t (zip X Y)) of
       ((m, c), out) \<Rightarrow>
         Inr (self\<lparr>state_mean := m, state_cov := c\<rparr>, beta out, spread out, spread_var out))"
    using lt Suc.prems by (simp add: dr sp take_Suc_update)
  finally show ?case .
qed

lemma process_data_fold:
  assumes "length X = length Y"
  shows "process_data self X Y =
    (case foldl (spec_filter_step (delta self) (R self))
            ((state_mean self, state_cov self), empty_frame) (zip X Y) of
       ((m, c), out) \<Rightarrow> Inr (self\<lparr>state_mean := m, state_cov := c\<rparr>, out))"
  using assms
  by (simp add: process_data_def Let_def process_loop_fold empty_frame_def split: prod.splits)

lemma spec_filter_step_append:
  "spec_filter_step q r (st, frame_append out0 out) obs =
     (case spec_filter_step q r (st, out) obs of (st', out') \<Rightarrow> (st', frame_append out0 out'))"
  by (cases st; cases obs) (simp add: spec_filter_step_def frame_append_def Let_def)

lemma frame_append_empty [simp]: "frame_append out empty_frame = out"
  by (simp add: frame_append_def empty_frame_def)

lemma fold_frame_prefix:
  "foldl (spec_filter_step q r) (st, out0) obs =
     (case foldl (spec_filter_step q r) (st, empty_frame) obs of
        (st', out') \<Rightarrow> (st', frame_append out0 out'))"
proof (induction obs rule: rev_induct)
  case Nil
  show ?case by simp
next
  case (snoc ob obs)
  obtain st' out' where f: "foldl (spec_filter_step q r) (st, empty_frame) obs = (st', out')"
    by (cases "foldl (spec_filter_step q r) (st, empty_frame) obs") blast
  with snoc show ?case
    by (simp add: spec_filter_step_append)
qed

lemma spec_filter_step_lengths:
  assumes "spec_filter_step q r (st, out) obs = (st', out')"
  shows "length (beta out') = Suc (length (beta out))"
        "length (spread out') = Suc (length (spread out))"
        "length (spread_var out') = Suc (length (spread_var out))"
  using assms by (cases st; cases obs; auto simp add: spec_filter_step_def Let_def)+

lemma fold_frame_lengths:
  assumes "foldl (spec_filter_step q r) (st, out) obs = (st', out')"
  shows "length (beta out') = length (beta out) + length obs \<and>
         length (spread out') = length (spread out) + length obs \<and>
         length (spread_var out') = length (spread_var out) + length obs"
  using assms
proof (induction obs arbitrary: st' out' rule: rev_induct)
  case Nil
  then show ?case by simp
next
  case (snoc ob obs)
  obtain st1 out1 where f: "foldl (spec_filter_step q r) (st, out) obs = (st1, out1)"
    by (cases "foldl (spec_filter_step q r) (st, out) obs") blast
  with snoc.prems have s: "spec_filter_step q r (st1, out1) ob = (st', out')" by simp
  show ?case
    using snoc.IH [OF f] spec_filter_step_lengths [OF s] by simp
qed

text \<open>
  C1. On a freshly constructed filter and two series of equal length, \<^verbatim>\<open>process_data\<close>
  returns the three columns that the left fold of the per-step recursion collects from
  mean 0 and covariance 1, each of the length of the input.
\<close>

theorem process_data_is_fold:
  assumes "length X = length Y"
  shows "map_sum id snd (process_data (KalmanFilterReg_init q r) X Y) =
           Inr (spec_filter_fold q r X Y)
       \<and> length (beta (spec_filter_fold q r X Y)) = length X
       \<and> length (spread (spec_filter_fold q r X Y)) = length X
       \<and> length (spread_var (spec_filter_fold q r X Y)) = length X"
proof -
  obtain st out where f:
    "foldl (spec_filter_step q r) ((Fin 0, Fin 1), empty_frame) (zip X Y) = (st, out)"
    by (cases "foldl (spec_filter_step q r) ((Fin 0, Fin 1), empty_frame) (zip X Y)") blast
  have "map_sum id snd (process_data (KalmanFilterReg_init q r) X Y) = Inr out"
    using f by (simp add: process_data_fold [OF assms] KalmanFilterReg_init_def split: prod.splits)
  moreover have "spec_filter_fold q r X Y = out"
    using f by (simp add: spec_filter_fold_def)
  moreover have "length (beta out) = length X \<and> length (spread out) = length X
      \<and> length (spread_var out) = length X"
    using fold_frame_lengths [OF f] assms by (simp add: empty_frame_def)
  ultimately show ?thesis by simp
qed

theorem process_data_is_fold_witness:
  "length [Fin 1, Fin 2] = length [Fin 1, Fin 3]
   \<and> map_sum id snd (process_data (KalmanFilterReg_init (Fin 0) (Fin 1)) [Fin 1, Fin 2] [Fin 1, Fin 3])
       = Inr \<lparr>beta = [Fin (1 / 2), Fin (7 / 6)], spread = [Fin 1, Fin 2], spread_var = [Fin 2, Fin 3]\<rparr>"
  using process_data_is_fold [of "[Fin 1, Fin 2]" "[Fin 1, Fin 3]" "Fin 0" "Fin 1"]
  by (simp add: spec_filter_fold_def spec_filter_step_def empty_frame_def Let_def)

section \<open>No validation, and the state that stays on the instance\<close>

lemma fold_from_init:
  obtains st out where
    "foldl (spec_filter_step q r) (st0, out0) obs = (st, out)"
  by (cases "foldl (spec_filter_step q r) (st0, out0) obs") blast




text \<open>
  C4 as stated fails: on \<open>X = [1]\<close>, \<open>Y = [1]\<close>, \<open>delta = 0\<close>, \<open>R = 1\<close> the second run
  on the same instance starts from mean 1/2 and covariance 1/2 and emits other values
  than the first.
\<close>

theorem second_run_differs:
  "process_data_twice (KalmanFilterReg_init (Fin 0) (Fin 1)) [Fin 1] [Fin 1] =
     Inr (\<lparr>beta = [Fin (1 / 2)], spread = [Fin 1], spread_var = [Fin 2]\<rparr>,
          \<lparr>beta = [Fin (2 / 3)], spread = [Fin (1 / 2)], spread_var = [Fin (3 / 2)]\<rparr>)
   \<and> \<lparr>beta = [Fin (1 / 2)], spread = [Fin 1], spread_var = [Fin 2]\<rparr>
       \<noteq> \<lparr>beta = [Fin (2 / 3)], spread = [Fin (1 / 2)], spread_var = [Fin (3 / 2)]\<rparr>"
  by (simp add: process_data_twice_def process_data_def process_loop.simps kf_update_def
      KalmanFilterReg_init_def Let_def)

text \<open>
  C4, as the code has it. The estimate stays on the instance between runs: the second of
  two successive runs starts from the mean and covariance the first one left, so the first
  run emits what the fold from mean 0 and covariance 1 emits, and the two frames one after
  the other are what a fresh filter emits on the inputs repeated twice.
\<close>

theorem second_run_continues_first:
  assumes "length X = length Y"
  shows "\<exists>first_run second_run.
           process_data_twice (KalmanFilterReg_init q r) X Y = Inr (first_run, second_run)
         \<and> first_run = spec_filter_fold q r X Y
         \<and> map_sum id snd (process_data (KalmanFilterReg_init q r) (X @ X) (Y @ Y)) =
             Inr (frame_append first_run second_run)"
proof -
  let ?init = "KalmanFilterReg_init q r"
  obtain m1 c1 out1 where f1:
    "foldl (spec_filter_step q r) ((Fin 0, Fin 1), empty_frame) (zip X Y) = ((m1, c1), out1)"
    by (metis fold_from_init surj_pair)
  obtain m2 c2 out2 where f2:
    "foldl (spec_filter_step q r) ((m1, c1), empty_frame) (zip X Y) = ((m2, c2), out2)"
    by (metis fold_from_init surj_pair)
  have r1: "process_data ?init X Y = Inr (?init\<lparr>state_mean := m1, state_cov := c1\<rparr>, out1)"
    using f1 by (simp add: process_data_fold [OF assms] KalmanFilterReg_init_def)
  have r2: "process_data (?init\<lparr>state_mean := m1, state_cov := c1\<rparr>) X Y =
      Inr (?init\<lparr>state_mean := m2, state_cov := c2\<rparr>, out2)"
    using f2 by (simp add: process_data_fold [OF assms] KalmanFilterReg_init_def)
  have tw: "process_data_twice ?init X Y = Inr (out1, out2)"
    by (simp add: process_data_twice_def r1 r2)
  have len: "length (X @ X) = length (Y @ Y)" using assms by simp
  have "foldl (spec_filter_step q r) ((Fin 0, Fin 1), empty_frame) (zip (X @ X) (Y @ Y)) =
        foldl (spec_filter_step q r) ((m1, c1), out1) (zip X Y)"
    using assms f1 by (simp add: zip_append)
  also have "\<dots> = ((m2, c2), frame_append out1 out2)"
    by (subst fold_frame_prefix) (simp add: f2)
  finally have "map_sum id snd (process_data ?init (X @ X) (Y @ Y)) = Inr (frame_append out1 out2)"
    by (simp add: process_data_fold [OF len] KalmanFilterReg_init_def)
  moreover have "out1 = spec_filter_fold q r X Y"
    using f1 by (simp add: spec_filter_fold_def)
  ultimately show ?thesis using tw by simp
qed

text \<open>
  The same on the one-step input above.
\<close>

theorem second_run_continues_first_witness:
  "length [Fin 1] = length [Fin 1]
   \<and> map_sum id snd (process_data (KalmanFilterReg_init (Fin 0) (Fin 1)) ([Fin 1] @ [Fin 1]) ([Fin 1] @ [Fin 1]))
      = map_sum id (\<lambda>(a, b). frame_append a b)
          (process_data_twice (KalmanFilterReg_init (Fin 0) (Fin 1)) [Fin 1] [Fin 1])"
  using second_run_continues_first [of "[Fin 1]" "[Fin 1]" "Fin 0" "Fin 1"]
  by auto

section \<open>A zero-valued independent leg\<close>

lemma kf_update_zero_leg:
  assumes "state_mean st = Fin m" "state_cov st = Fin c" "delta st = Fin q" "R st = Fin r" "r \<noteq> 0"
  shows "kf_update st (Fin 0) (Fin y) =
    (st\<lparr>state_mean := Fin m, state_cov := Fin (c + q)\<rparr>, Fin y, Fin r, Fin 0)"
  using assms by (simp add: kf_update_def Let_def)

lemma process_loop_prefix:
  assumes "t \<le> n" "length X = n" "length Y = n"
    "length be = n" "length se = n" "length ev = n"
  shows "\<exists>sf be' se' ev'.
           process_loop self X Y n t be se ev = Inr (sf, be', se', ev')
         \<and> take t be' = take t be \<and> take t se' = take t se \<and> take t ev' = take t ev
         \<and> length be' = n \<and> length se' = n \<and> length ev' = n"
proof -
  let ?step = "spec_filter_step (delta self) (R self)"
  let ?F = "\<lparr>beta = take t be, spread = take t se, spread_var = take t ev\<rparr>"
  obtain st rest where f:
    "foldl ?step ((state_mean self, state_cov self), empty_frame) (drop t (zip X Y)) = (st, rest)"
    by (rule fold_from_init)
  have g: "foldl ?step ((state_mean self, state_cov self), ?F) (drop t (zip X Y)) =
      (st, frame_append ?F rest)"
    by (subst fold_frame_prefix) (simp add: f)
  have l: "length (beta rest) = n - t" "length (spread rest) = n - t" "length (spread_var rest) = n - t"
    using fold_frame_lengths [OF f] assms by (simp_all add: empty_frame_def)
  have "process_loop self X Y n t be se ev =
      Inr (self\<lparr>state_mean := fst st, state_cov := snd st\<rparr>,
           take t be @ beta rest, take t se @ spread rest, take t ev @ spread_var rest)"
    by (simp add: process_loop_fold [OF assms] g frame_append_def split: prod.splits)
  then show ?thesis
    using l assms by simp
qed

lemma nth_from_take:
  assumes "take (Suc t) xs = take (Suc t) ys"
  shows "xs ! t = ys ! t"
  using assms by (metis lessI nth_take)

lemma one_le_float64_max: "1 \<le> float64_max"
proof -
  have "(1::real) \<le> 2 - 1 / 2 ^ 52" by simp
  moreover have "(1::real) \<le> 2 ^ 1023" by (rule one_le_power) simp
  ultimately have "(1::real) * 1 \<le> (2 - 1 / 2 ^ 52) * 2 ^ 1023"
    by (intro mult_mono) simp_all
  then show ?thesis by (simp add: float64_max_def)
qed

text \<open>
  C9, as the code has it. With \<open>R > 0\<close>, whenever the loop enters a step \<open>t\<close> with
  \<open>X[t] = 0\<close> in a state with a finite mean and a finite covariance, with a finite
  \<open>delta\<close> and \<open>Y[t]\<close> and a predicted covariance (covariance plus \<open>delta\<close>) that does not
  overflow: the update yields the innovation variance \<open>R\<close>, the gain 0 and an unchanged
  mean, and the loop, run to its end from there, has \<open>R\<close> in the variance array at \<open>t\<close>
  and the prior mean in the \<open>beta\<close> array at \<open>t\<close>. The entering state is any state, so
  nothing is assumed of how the earlier steps computed it; in the step itself every product
  has the factor 0 and every other sum the summand 0, which float64 computes as the
  model does.
\<close>

theorem zero_leg_keeps_estimate:
  assumes "t < n" "length X = n" "length Y = n"
    "length be = n" "length se = n" "length ev = n"
    and "X ! t = Fin 0" "Y ! t = Fin y"
    and "state_mean st = Fin m" "state_cov st = Fin c" "delta st = Fin q" "R st = Fin r"
    and "0 < r" "\<bar>c + q\<bar> \<le> float64_max"
  shows "case kf_update st (X ! t) (Y ! t) of
           (st', err, S, K) \<Rightarrow>
             S = Fin r \<and> K = Fin 0 \<and> state_mean st' = state_mean st
             \<and> (case process_loop st X Y n t be se ev of
                  Inl e \<Rightarrow> False
                | Inr (sf, be', se', ev') \<Rightarrow>
                    ev' ! t = Fin r \<and> be' ! t = state_mean st
                    \<and> length be' = n \<and> length ev' = n)"
proof -
  let ?st' = "st\<lparr>state_mean := Fin m, state_cov := Fin (c + q)\<rparr>"
  have upd: "kf_update st (X ! t) (Y ! t) = (?st', Fin y, Fin r, Fin 0)"
    unfolding assms(7,8) using assms(9-13) by (intro kf_update_zero_leg) simp_all
  have step: "process_loop st X Y n t be se ev =
      process_loop ?st' X Y n (Suc t) (be[t := Fin m]) (se[t := Fin y]) (ev[t := Fin r])"
    using assms(1,3) upd by (subst process_loop.simps) simp
  obtain sf be' se' ev' where r:
    "process_loop ?st' X Y n (Suc t) (be[t := Fin m]) (se[t := Fin y]) (ev[t := Fin r]) =
       Inr (sf, be', se', ev')"
    "take (Suc t) be' = take (Suc t) (be[t := Fin m])"
    "take (Suc t) ev' = take (Suc t) (ev[t := Fin r])"
    "length be' = n" "length ev' = n"
    using process_loop_prefix [of "Suc t" n X Y "be[t := Fin m]" "se[t := Fin y]" "ev[t := Fin r]" ?st']
      assms(1-6) by auto
  have "be' ! t = Fin m" "ev' ! t = Fin r"
    using nth_from_take [OF r(2)] nth_from_take [OF r(3)] assms(1,4,6) by simp_all
  then show ?thesis
    by (simp add: upd step r assms(9))
qed

text \<open>
  The same on \<open>X = [1, 0]\<close>, \<open>Y = [1, 2]\<close>, \<open>delta = 0\<close>, \<open>R = 1\<close>: the loop enters step 1
  with mean 1/2 and covariance 1/2, emits variance 1 there and keeps \<open>beta\<close> at 1/2; that
  is the output of the whole run.
\<close>

theorem zero_leg_keeps_estimate_witness:
  "(1::nat) < 2 \<and> length [Fin 1, Fin 0] = 2 \<and> [Fin 1, Fin 0] ! 1 = Fin 0 \<and> (0::real) < 1
   \<and> process_loop \<lparr>delta = Fin 0, R = Fin 1, state_mean = Fin (1 / 2), state_cov = Fin (1 / 2)\<rparr>
        [Fin 1, Fin 0] [Fin 1, Fin 2] 2 1 [Fin (1 / 2), Fin 0] [Fin 1, Fin 0] [Fin 2, Fin 0] =
       Inr (\<lparr>delta = Fin 0, R = Fin 1, state_mean = Fin (1 / 2), state_cov = Fin (1 / 2)\<rparr>,
            [Fin (1 / 2), Fin (1 / 2)], [Fin 1, Fin 2], [Fin 2, Fin 1])
   \<and> process_data (KalmanFilterReg_init (Fin 0) (Fin 1)) [Fin 1, Fin 0] [Fin 1, Fin 2] =
       Inr (\<lparr>delta = Fin 0, R = Fin 1, state_mean = Fin (1 / 2), state_cov = Fin (1 / 2)\<rparr>,
            \<lparr>beta = [Fin (1 / 2), Fin (1 / 2)], spread = [Fin 1, Fin 2], spread_var = [Fin 2, Fin 1]\<rparr>)"
proof -
  let ?st = "\<lparr>delta = Fin 0, R = Fin 1, state_mean = Fin (1 / 2), state_cov = Fin (1 / 2)\<rparr>"
  have b: "1 \<le> float64_max * 2"
    using one_le_float64_max by simp
  have "case kf_update ?st ([Fin 1, Fin 0] ! 1) ([Fin 1, Fin 2] ! 1) of
           (st', err, S, K) \<Rightarrow>
             S = Fin 1 \<and> K = Fin 0 \<and> state_mean st' = state_mean ?st
             \<and> (case process_loop ?st [Fin 1, Fin 0] [Fin 1, Fin 2] 2 1
                       [Fin (1 / 2), Fin 0] [Fin 1, Fin 0] [Fin 2, Fin 0] of
                  Inl e \<Rightarrow> False
                | Inr (sf, be', se', ev') \<Rightarrow>
                    ev' ! 1 = Fin 1 \<and> be' ! 1 = state_mean ?st
                    \<and> length be' = 2 \<and> length ev' = 2)"
    by (rule zero_leg_keeps_estimate [where y = 2 and m = "1 / 2" and c = "1 / 2" and q = 0 and r = 1])
      (simp_all add: b)
  then show ?thesis
    by (simp add: process_data_def process_loop.simps kf_update_def KalmanFilterReg_init_def Let_def)
qed

text \<open>
  C9 as stated, with \<open>R > 0\<close> as its only condition, fails: \<open>delta = -2\<close>, \<open>R = 1\<close>,
  \<open>X = [1, 0]\<close>, \<open>Y = [1, 1]\<close> makes the first innovation variance 0, the gain and the
  state infinite, and the step with \<open>X[1] = 0\<close> emits NaN, not \<open>R\<close>.
\<close>

theorem zero_leg_after_negative_delta:
  "Fin 0 < Fin 1 \<and> [Fin 1, Fin 0] ! 1 = Fin 0
   \<and> process_data (KalmanFilterReg_init (Fin (- 2)) (Fin 1)) [Fin 1, Fin 0] [Fin 1, Fin 1] =
       Inr (\<lparr>delta = Fin (- 2), R = Fin 1, state_mean = NaN, state_cov = NaN\<rparr>,
            \<lparr>beta = [NInf, NaN], spread = [Fin 1, NaN], spread_var = [Fin 0, NaN]\<rparr>)
   \<and> [Fin 0, NaN] ! 1 \<noteq> Fin 1"
  by (simp add: process_data_def process_loop.simps kf_update_def KalmanFilterReg_init_def Let_def)

section \<open>The position loop is the fold of the transition table\<close>

lemma signal_step_spec:
  "signal_step self (pos_int st) z =
     pos_int (spec_transition (entry_threshold self) (exit_threshold self) st z)"
  by (cases st) (simp_all add: signal_step_def)

lemma Fin_pos_int: "Fin (of_int (pos_int st)) = spec_position st"
  by (cases st) simp_all

lemma length_spec_states [simp]: "length (spec_states e x st zs) = length zs"
  by (induction zs arbitrary: st) simp_all

lemma signal_loop_states:
  assumes "t \<le> n" "length zs = n" "length ps = n"
  shows "signal_loop self zs n t (pos_int st) ps =
     take t ps @ map spec_position
       (spec_states (entry_threshold self) (exit_threshold self) st (drop t zs))"
  using assms
proof (induction "n - t" arbitrary: t st ps)
  case 0
  then show ?case by (simp add: signal_loop.simps)
next
  case (Suc k)
  then have lt: "t < n" by simp
  let ?st' = "spec_transition (entry_threshold self) (exit_threshold self) st (zs ! t)"
  have dr: "drop t zs = zs ! t # drop (Suc t) zs"
    using lt Suc.prems by (simp add: Cons_nth_drop_Suc)
  have "signal_loop self zs n t (pos_int st) ps =
        signal_loop self zs n (Suc t) (pos_int ?st') (ps[t := spec_position ?st'])"
    using lt by (subst signal_loop.simps) (simp add: Let_def signal_step_spec Fin_pos_int)
  also have "\<dots> = take (Suc t) (ps[t := spec_position ?st']) @ map spec_position
       (spec_states (entry_threshold self) (exit_threshold self) ?st' (drop (Suc t) zs))"
    using Suc.hyps(2) lt Suc.prems by (intro Suc.hyps(1)) simp_all
  finally show ?case
    using lt Suc.prems by (simp add: dr take_Suc_update)
qed

lemma fold_states:
  "foldl (spec_signal_step e x) (st, out) zs =
     (last (st # spec_states e x st zs), out @ map spec_position (spec_states e x st zs))"
  by (induction zs arbitrary: st out) (simp_all add: spec_signal_step_def Let_def)

lemma spec_signal_fold_states:
  "spec_signal_fold e x zs = map spec_position (spec_states e x Flat zs)"
  by (simp add: spec_signal_fold_def fold_states)

lemma spec_states_nth:
  "t < length zs \<Longrightarrow>
   spec_states e x st zs ! t =
     spec_transition e x (if t = 0 then st else spec_states e x st zs ! (t - 1)) (zs ! t)"
proof (induction zs arbitrary: st t)
  case Nil
  then show ?case by simp
next
  case (Cons z zs)
  show ?case
  proof (cases t)
    case 0
    then show ?thesis by simp
  next
    case (Suc k)
    with Cons.prems have "k < length zs" by simp
    from Cons.IH [OF this] Suc show ?thesis
      by (cases k) simp_all
  qed
qed

lemma generate_signals_columns:
  "z_score (generate_signals self kf) =
     map2 (\<lambda>s v. s / np_sqrt v) (spread kf) (spread_var kf)"
  "position (generate_signals self kf) =
     map spec_position (spec_states (entry_threshold self) (exit_threshold self) Flat
       (z_score (generate_signals self kf)))"
proof -
  show z: "z_score (generate_signals self kf) =
     map2 (\<lambda>s v. s / np_sqrt v) (spread kf) (spread_var kf)"
    by (simp add: generate_signals_def Let_def)
  let ?zs = "map2 (\<lambda>s v. s / np_sqrt v) (spread kf) (spread_var kf)"
  have "position (generate_signals self kf) =
      signal_loop self ?zs (length ?zs) 0 (pos_int Flat) (replicate (length ?zs) (Fin 0))"
    by (simp add: generate_signals_def Let_def)
  also have "\<dots> = map spec_position
      (spec_states (entry_threshold self) (exit_threshold self) Flat ?zs)"
    by (subst signal_loop_states) simp_all
  finally show "position (generate_signals self kf) =
     map spec_position (spec_states (entry_threshold self) (exit_threshold self) Flat
       (z_score (generate_signals self kf)))"
    by (simp only: z)
qed

lemma spec_position_range: "spec_position st = Fin (- 1) \<or> spec_position st = Fin 0 \<or> spec_position st = Fin 1"
  by (cases st) simp_all

text \<open>
  C2. The z-score column is spread over the root of the variance, and the position column
  of \<^verbatim>\<open>generate_signals\<close> is the fold of the table's transition over that column from
  Flat, each step recording the state entered on reading \<open>z[t]\<close>; there is one position per
  z-score and each is -1, 0 or +1.
\<close>

theorem generate_signals_is_fold:
  "z_score (generate_signals self kf) =
     map2 (\<lambda>s v. s / np_sqrt v) (spread kf) (spread_var kf)
   \<and> position (generate_signals self kf) =
       spec_signal_fold (entry_threshold self) (exit_threshold self)
         (z_score (generate_signals self kf))
   \<and> length (position (generate_signals self kf)) = length (z_score (generate_signals self kf))
   \<and> (\<forall>p \<in> set (position (generate_signals self kf)).
         p = Fin (- 1) \<or> p = Fin 0 \<or> p = Fin 1)"
proof -
  note cols = generate_signals_columns [of self kf]
  have "\<forall>p \<in> set (position (generate_signals self kf)). p = Fin (- 1) \<or> p = Fin 0 \<or> p = Fin 1"
    unfolding cols(2) using spec_position_range by auto
  moreover have "length (position (generate_signals self kf)) =
      length (z_score (generate_signals self kf))"
    by (subst cols(2)) simp
  ultimately show ?thesis
    using cols by (simp add: spec_signal_fold_states)
qed

text \<open>
  The same on z-scores -3, 1, 3, -1 with entry 2 and exit 0: long, flat, short, flat.
\<close>

theorem generate_signals_is_fold_witness:
  "position (generate_signals \<lparr>entry_threshold = Fin 2, exit_threshold = Fin 0\<rparr>
      \<lparr>beta = [Fin 1, Fin 1, Fin 1, Fin 1], spread = [Fin (- 3), Fin 1, Fin 6, Fin (- 1)],
       spread_var = [Fin 1, Fin 1, Fin 4, Fin 1]\<rparr>)
     = [Fin 1, Fin 0, Fin (- 1), Fin 0]"
  using generate_signals_is_fold [of "\<lparr>entry_threshold = Fin 2, exit_threshold = Fin 0\<rparr>"
      "\<lparr>beta = [Fin 1, Fin 1, Fin 1, Fin 1], spread = [Fin (- 3), Fin 1, Fin 6, Fin (- 1)],
       spread_var = [Fin 1, Fin 1, Fin 4, Fin 1]\<rparr>"]
  by (simp add: spec_signal_fold_def spec_signal_step_def Let_def)

section \<open>Steps of the position, and variances that are not positive\<close>

lemma length_diff_pd [simp]: "length (diff_pd xs) = length xs"
  by (cases xs) (simp_all add: diff_pd_def)

lemma diff_pd_nth:
  "Suc t < length xs \<Longrightarrow> diff_pd xs ! Suc t = xs ! Suc t - xs ! t"
  by (cases xs) (simp_all add: diff_pd_def)

lemma diff_pd_hd: "xs \<noteq> [] \<Longrightarrow> diff_pd xs ! 0 = NaN"
  by (cases xs) (simp_all add: diff_pd_def)

lemma length_shift_pd [simp]: "length (shift_pd xs) = length xs"
  by (cases xs) (simp_all add: shift_pd_def)

lemma shift_pd_nth:
  assumes "Suc t < length xs"
  shows "shift_pd xs ! Suc t = xs ! t"
proof -
  from assms have "shift_pd xs = NaN # butlast xs"
    by (cases xs) (simp_all add: shift_pd_def)
  moreover from assms have "t < length (butlast xs)" by simp
  ultimately show ?thesis by (simp add: nth_butlast)
qed

lemma shift_pd_hd: "xs \<noteq> [] \<Longrightarrow> shift_pd xs ! 0 = NaN"
  by (cases xs) (simp_all add: shift_pd_def)

lemma transition_one_step:
  "spec_position (spec_transition e x st z) - spec_position st = Fin 0
   \<or> spec_position (spec_transition e x st z) - spec_position st = Fin 1
   \<or> spec_position (spec_transition e x st z) - spec_position st = Fin (- 1)"
  by (cases st) simp_all

lemma transition_on_nan: "spec_transition e x st NaN = st"
  by (cases st) simp_all

lemma position_step:
  assumes "Suc t < length (position (generate_signals self kf))"
  shows "\<exists>st. position (generate_signals self kf) ! t = spec_position st
     \<and> position (generate_signals self kf) ! Suc t =
         spec_position (spec_transition (entry_threshold self) (exit_threshold self) st
           (z_score (generate_signals self kf) ! Suc t))"
proof -
  let ?zs = "z_score (generate_signals self kf)"
  let ?sts = "spec_states (entry_threshold self) (exit_threshold self) Flat ?zs"
  have p: "position (generate_signals self kf) = map spec_position ?sts"
    by (rule generate_signals_columns(2))
  have l: "Suc t < length ?zs" using assms by (subst (asm) p) simp
  have "?sts ! Suc t = spec_transition (entry_threshold self) (exit_threshold self) (?sts ! t) (?zs ! Suc t)"
    using spec_states_nth [OF l, of "entry_threshold self" "exit_threshold self" Flat] by simp
  then show ?thesis
    using l by (subst (1 2) p) (auto simp add: nth_map)
qed

text \<open>
  C10. Two consecutive positions of \<^verbatim>\<open>generate_signals\<close> differ by at most 1: the machine
  never goes from long to short or back in one step, and the trade indicator the
  backtester computes from them is 0 or 1 at every step that has a predecessor.
\<close>

theorem positions_move_one_step:
  assumes "Suc t < length (position (generate_signals self kf))"
  shows "\<bar>position (generate_signals self kf) ! Suc t - position (generate_signals self kf) ! t\<bar> \<le> Fin 1
    \<and> \<not> (position (generate_signals self kf) ! t = Fin 1
          \<and> position (generate_signals self kf) ! Suc t = Fin (- 1))
    \<and> \<not> (position (generate_signals self kf) ! t = Fin (- 1)
          \<and> position (generate_signals self kf) ! Suc t = Fin 1)
    \<and> (trades (run_df bt (with_prices (generate_signals self kf) px py)) ! Suc t = Fin 0
       \<or> trades (run_df bt (with_prices (generate_signals self kf) px py)) ! Suc t = Fin 1)"
proof -
  let ?ps = "position (generate_signals self kf)"
  obtain st where st: "?ps ! t = spec_position st"
    "?ps ! Suc t = spec_position (spec_transition (entry_threshold self) (exit_threshold self) st
           (z_score (generate_signals self kf) ! Suc t))"
    using position_step [OF assms] by blast
  let ?d = "?ps ! Suc t - ?ps ! t"
  have d: "?d = Fin 0 \<or> ?d = Fin 1 \<or> ?d = Fin (- 1)"
    unfolding st by (rule transition_one_step)
  then have a: "\<bar>?d\<bar> = Fin 0 \<or> \<bar>?d\<bar> = Fin 1" by auto
  have tr: "trades (run_df bt (with_prices (generate_signals self kf) px py)) ! Suc t = \<bar>?d\<bar>"
    using assms by (simp add: run_df_def with_prices_def Let_def diff_pd_nth)
  have "\<bar>?d\<bar> \<le> Fin 1" using a by auto
  moreover have "\<not> (?ps ! t = Fin 1 \<and> ?ps ! Suc t = Fin (- 1))"
    using d by auto
  moreover have "\<not> (?ps ! t = Fin (- 1) \<and> ?ps ! Suc t = Fin 1)"
    using d by auto
  ultimately show ?thesis
    using a tr by simp
qed

text \<open>
  The same at the third step of the run above, where the machine goes from flat to
  short: one unit of trade.
\<close>

theorem positions_move_one_step_witness:
  "Suc 1 < length (position (generate_signals \<lparr>entry_threshold = Fin 2, exit_threshold = Fin 0\<rparr>
      \<lparr>beta = [Fin 1, Fin 1, Fin 1, Fin 1], spread = [Fin (- 3), Fin 1, Fin 6, Fin (- 1)],
       spread_var = [Fin 1, Fin 1, Fin 4, Fin 1]\<rparr>))
   \<and> trades (run_df \<lparr>initial_capital = Fin 10000, cost_bps = Fin 0\<rparr>
        (with_prices (generate_signals \<lparr>entry_threshold = Fin 2, exit_threshold = Fin 0\<rparr>
      \<lparr>beta = [Fin 1, Fin 1, Fin 1, Fin 1], spread = [Fin (- 3), Fin 1, Fin 6, Fin (- 1)],
       spread_var = [Fin 1, Fin 1, Fin 4, Fin 1]\<rparr>) [] [])) ! Suc 1 = Fin 1"
  using positions_move_one_step [of 1 "\<lparr>entry_threshold = Fin 2, exit_threshold = Fin 0\<rparr>"
      "\<lparr>beta = [Fin 1, Fin 1, Fin 1, Fin 1], spread = [Fin (- 3), Fin 1, Fin 6, Fin (- 1)],
       spread_var = [Fin 1, Fin 1, Fin 4, Fin 1]\<rparr>" "\<lparr>initial_capital = Fin 10000, cost_bps = Fin 0\<rparr>" "[]" "[]"]
  by (simp add: generate_signals_def signal_loop.simps signal_step_def Let_def run_df_def
      with_prices_def diff_pd_def)

text \<open>
  C6, as the code has it. The Signal Generator raises nothing: it returns a z-score and a
  position for every row. Where the variance is not positive the z-score is not a finite
  number; where it is negative the z-score is NaN, no threshold test holds for it, and the
  position is the one of the step before (flat at the first step).
\<close>

theorem negative_variance_no_error:
  assumes "t < length (spread kf)" "length (spread_var kf) = length (spread kf)"
    "spread_var kf ! t = Fin v" "v \<le> 0"
  shows "length (z_score (generate_signals self kf)) = length (spread kf)
    \<and> length (position (generate_signals self kf)) = length (spread kf)
    \<and> \<not> isfinite (z_score (generate_signals self kf) ! t)
    \<and> (v < 0 \<longrightarrow>
         z_score (generate_signals self kf) ! t = NaN
         \<and> position (generate_signals self kf) ! t =
             (if t = 0 then Fin 0 else position (generate_signals self kf) ! (t - 1)))"
proof -
  let ?zs = "z_score (generate_signals self kf)"
  let ?e = "entry_threshold self" and ?x = "exit_threshold self"
  let ?sts = "spec_states ?e ?x Flat ?zs"
  have z: "?zs = map2 (\<lambda>s v. s / np_sqrt v) (spread kf) (spread_var kf)"
    by (rule generate_signals_columns(1))
  have p: "position (generate_signals self kf) = map spec_position ?sts"
    by (rule generate_signals_columns(2))
  have lz: "length ?zs = length (spread kf)" using assms(2) by (simp add: z)
  have lp: "length (position (generate_signals self kf)) = length (spread kf)"
    using lz by (subst p) simp
  have zt: "?zs ! t = spread kf ! t / np_sqrt (Fin v)"
    using assms by (simp add: z)
  have nf: "\<not> isfinite (?zs ! t)"
    unfolding zt using assms(4) by (cases "spread kf ! t") auto
  have neg: "?zs ! t = NaN \<and> position (generate_signals self kf) ! t =
             (if t = 0 then Fin 0 else position (generate_signals self kf) ! (t - 1))" if "v < 0"
  proof -
    have n: "?zs ! t = NaN" unfolding zt using that by simp
    have tl: "t < length ?zs" using assms(1) lz by simp
    have "?sts ! t = (if t = 0 then Flat else ?sts ! (t - 1))"
      using spec_states_nth [OF tl, of ?e ?x Flat] by (simp add: n transition_on_nan)
    then show ?thesis
      using n tl by (subst (1 2) p) (auto simp add: nth_map)
  qed
  show ?thesis using lz lp nf neg by simp
qed

text \<open>
  The same at the first row of a frame whose variance there is -1.
\<close>

theorem negative_variance_no_error_witness:
  "0 < length [Fin 1, Fin (- 3)] \<and> [Fin (- 1), Fin 1] ! 0 = Fin (- 1) \<and> (- 1 :: real) \<le> 0
   \<and> z_score (generate_signals \<lparr>entry_threshold = Fin 2, exit_threshold = Fin 0\<rparr>
        \<lparr>beta = [Fin 1, Fin 1], spread = [Fin 1, Fin (- 3)], spread_var = [Fin (- 1), Fin 1]\<rparr>) ! 0 = NaN
   \<and> position (generate_signals \<lparr>entry_threshold = Fin 2, exit_threshold = Fin 0\<rparr>
        \<lparr>beta = [Fin 1, Fin 1], spread = [Fin 1, Fin (- 3)], spread_var = [Fin (- 1), Fin 1]\<rparr>) ! 0 = Fin 0"
  using negative_variance_no_error [of 0
      "\<lparr>beta = [Fin 1, Fin 1], spread = [Fin 1, Fin (- 3)], spread_var = [Fin (- 1), Fin 1]\<rparr>" "- 1"
      "\<lparr>entry_threshold = Fin 2, exit_threshold = Fin 0\<rparr>"]
  by simp

text \<open>
  C6 as stated fails: with variance -1 at the first row the z-score there is NaN, the run
  goes on, and the second row opens a long position.
\<close>

theorem negative_variance_run_continues:
  "[Fin (- 1), Fin 1] ! 0 \<le> Fin 0
   \<and> z_score (generate_signals \<lparr>entry_threshold = Fin 2, exit_threshold = Fin 0\<rparr>
        \<lparr>beta = [Fin 1, Fin 1], spread = [Fin 1, Fin (- 3)], spread_var = [Fin (- 1), Fin 1]\<rparr>)
       = [NaN, Fin (- 3)]
   \<and> position (generate_signals \<lparr>entry_threshold = Fin 2, exit_threshold = Fin 0\<rparr>
        \<lparr>beta = [Fin 1, Fin 1], spread = [Fin 1, Fin (- 3)], spread_var = [Fin (- 1), Fin 1]\<rparr>)
       = [Fin 0, Fin 1]"
  by (simp add: generate_signals_def signal_loop.simps signal_step_def Let_def)

section \<open>Gross and net PnL\<close>

lemma spec_scenario_from_pipeline:
  "spec_scenario = with_prices (generate_signals \<lparr>entry_threshold = Fin 2, exit_threshold = Fin 0\<rparr>
   \<lparr>beta = [Fin 1, Fin 1, Fin 1, Fin 1, Fin 1],
      spread = [Fin 0, Fin 0, Fin (- 3), Fin (- 1), Fin 0],
      spread_var = [Fin 1, Fin 1, Fin 1, Fin 1, Fin 1]\<rparr>) [Fin 5, Fin 5, Fin 6, Fin 6, Fin 6] [Fin 10, Fin 11, Fin 13, Fin 12, Fin 12]"
  by (simp add: spec_scenario_def with_prices_def generate_signals_def Let_def signal_loop.simps signal_step_def)

text \<open>
  C3. At every step \<open>t \<ge> 1\<close> the gross PnL is the position of step \<open>t - 1\<close> times the
  change of Y less the hedge ratio of step \<open>t - 1\<close> times the change of X; nothing of
  step \<open>t\<close> but the two prices enters. In the specification's scenario, at zero cost,
  \<open>net[2] = 0\<close> and \<open>net[3] = -1\<close>.
\<close>

theorem pnl_uses_previous_step:
  assumes "length (position signals) = n" "length (beta signals) = n"
    "length (price_x signals) = n" "length (price_y signals) = n"
    "1 \<le> t" "t < n"
  shows "strategy_pnl_daily (run_df self signals) ! t =
           position signals ! (t - 1) *
             ((price_y signals ! t - price_y signals ! (t - 1))
              - beta signals ! (t - 1) * (price_x signals ! t - price_x signals ! (t - 1)))
       \<and> length (strategy_pnl_daily (run_df self signals)) = n
       \<and> net_pnl (run_df \<lparr>initial_capital = c, cost_bps = Fin 0\<rparr> spec_scenario) ! 2 = Fin 0
       \<and> net_pnl (run_df \<lparr>initial_capital = c, cost_bps = Fin 0\<rparr> spec_scenario) ! 3 = Fin (- 1)"
proof -
  obtain k where k: "t = Suc k" using assms(5) by (cases t) simp_all
  have "strategy_pnl_daily (run_df self signals) ! Suc k =
           position signals ! k *
             ((price_y signals ! Suc k - price_y signals ! k)
              - beta signals ! k * (price_x signals ! Suc k - price_x signals ! k))"
    using assms k by (simp add: run_df_def Let_def diff_pd_nth shift_pd_nth)
  moreover have "length (strategy_pnl_daily (run_df self signals)) = n"
    using assms by (simp add: run_df_def Let_def)
  moreover have "net_pnl (run_df \<lparr>initial_capital = c, cost_bps = Fin 0\<rparr> spec_scenario)
      = [NaN, Fin 0, Fin 0, Fin (- 1), Fin 0]"
    by (simp add: run_df_def spec_scenario_def Let_def diff_pd_def shift_pd_def fillna_def)
  ultimately show ?thesis by (simp add: k)
qed

text \<open>
  The same at step 3 of the scenario.
\<close>

theorem pnl_uses_previous_step_witness:
  "length (position spec_scenario) = 5 \<and> (1::nat) \<le> 3 \<and> (3::nat) < 5
   \<and> strategy_pnl_daily (run_df \<lparr>initial_capital = Fin 10000, cost_bps = Fin 0\<rparr> spec_scenario) ! 3
       = Fin 1 * ((Fin 12 - Fin 13) - Fin 1 * (Fin 6 - Fin 6))"
proof -
  have h: "length (position spec_scenario) = 5" "length (beta spec_scenario) = 5"
    "length (price_x spec_scenario) = 5" "length (price_y spec_scenario) = 5"
    by (simp_all add: spec_scenario_def)
  have i: "(1::nat) \<le> 3" "(3::nat) < 5" by simp_all
  from pnl_uses_previous_step [OF h i, of "\<lparr>initial_capital = Fin 10000, cost_bps = Fin 0\<rparr>"]
  have "strategy_pnl_daily (run_df \<lparr>initial_capital = Fin 10000, cost_bps = Fin 0\<rparr> spec_scenario) ! 3 =
           position spec_scenario ! (3 - 1) *
             ((price_y spec_scenario ! 3 - price_y spec_scenario ! (3 - 1))
              - beta spec_scenario ! (3 - 1) * (price_x spec_scenario ! 3 - price_x spec_scenario ! (3 - 1)))"
    by blast
  then show ?thesis
    by (simp add: spec_scenario_def numeral_3_eq_3)
qed

text \<open>
  C7 on the scenario: \<^verbatim>\<open>fillna(0)\<close> is applied to the cost column only, so the first
  net PnL is NaN less 0, which is NaN and not 0, and the equity curve starts with NaN.
\<close>

theorem first_step_is_nan:
  "strategy_pnl_daily (run_df \<lparr>initial_capital = Fin 10000, cost_bps = Fin 0\<rparr> spec_scenario) ! 0 = NaN
   \<and> costs (run_df \<lparr>initial_capital = Fin 10000, cost_bps = Fin 0\<rparr> spec_scenario) ! 0 = NaN
   \<and> net_pnl (run_df \<lparr>initial_capital = Fin 10000, cost_bps = Fin 0\<rparr> spec_scenario)
       = [NaN, Fin 0, Fin 0, Fin (- 1), Fin 0]
   \<and> cumulative_pnl (run_df \<lparr>initial_capital = Fin 10000, cost_bps = Fin 0\<rparr> spec_scenario)
       = [NaN, Fin 0, Fin 0, Fin (- 1), Fin (- 1)]
   \<and> net_pnl (run_df \<lparr>initial_capital = Fin 10000, cost_bps = Fin 0\<rparr> spec_scenario) ! 0 \<noteq> Fin 0"
  by (simp add: run_df_def spec_scenario_def Let_def diff_pd_def shift_pd_def fillna_def cumsum_pd_def)

lemma first_row_nan:
  assumes "position signals \<noteq> []" "beta signals \<noteq> []" "price_x signals \<noteq> []" "price_y signals \<noteq> []"
  shows "net_pnl (run_df self signals) ! 0 = NaN" "cumulative_pnl (run_df self signals) ! 0 = NaN"
proof -
  obtain p ps b bs x xs y ys where e: "position signals = p # ps" "beta signals = b # bs"
    "price_x signals = x # xs" "price_y signals = y # ys"
    using assms by (meson list.exhaust)
  show "net_pnl (run_df self signals) ! 0 = NaN" "cumulative_pnl (run_df self signals) ! 0 = NaN"
    by (simp_all add: run_df_def Let_def e diff_pd_def shift_pd_def fillna_def cumsum_pd_def)
qed

section \<open>The Sharpe ratio and its guard\<close>

lemma sum_zeros: "foldl (+) (Fin 0) (replicate n (Fin 0)) = Fin 0"
  by (induction n) simp_all

lemma zero_std:
  assumes "dropna s = replicate n (Fin 0)" "2 \<le> n"
  shows "std_pd s = Fin 0"
proof -
  have n0: "real n \<noteq> 0" "real (n - 1) \<noteq> 0" "\<not> n \<le> 1" using assms(2) by simp_all
  have avg: "sum_np (replicate n (Fin 0)) / Fin (real n) = Fin 0"
    using n0 by (simp add: sum_np_def sum_zeros)
  have sq: "map (\<lambda>v. (Fin 0 - v) * (Fin 0 - v)) (replicate n (Fin 0)) = replicate n (Fin 0)"
    by simp
  show ?thesis
    using n0 by (simp add: std_pd_def assms(1) Let_def avg sq sum_np_def sum_zeros)
qed

lemma short_std:
  assumes "length (dropna s) \<le> 1"
  shows "std_pd s = NaN"
  using assms by (simp add: std_pd_def Let_def)

text \<open>
  C8, as the code has it. The Sharpe ratio is 0 when the sample deviation (\<^verbatim>\<open>ddof=1\<close>, NaN
  rows skipped) is 0, and \<open>sqrt 252\<close> times mean over deviation otherwise. The deviation is
  0 for a series whose rows that are not NaN are all 0 and at least two: a run that never
  trades. It is NaN, and the ratio with it, when fewer than two rows are left. On the rows
  1, 3, 5 after a NaN the mean is 3 and the deviation 2 (dividing by 3 instead of 2 would
  not give 2). Every value in these computations is exact in float64; of a flat series at
  another value nothing is said, since there the rounding of the mean decides whether the
  deviation is 0.
\<close>

theorem sharpe_guard:
  "(std_pd s = Fin 0 \<longrightarrow> calculate_sharpe s = Fin 0)
   \<and> (std_pd s \<noteq> Fin 0 \<longrightarrow>
        calculate_sharpe s = np_sqrt (Fin 252) * (mean_pd s / std_pd s))
   \<and> (dropna s = replicate n (Fin 0) \<and> 2 \<le> n \<longrightarrow>
        std_pd s = Fin 0 \<and> calculate_sharpe s = Fin 0)
   \<and> (length (dropna s) \<le> 1 \<longrightarrow> std_pd s = NaN \<and> calculate_sharpe s = NaN)
   \<and> mean_pd [NaN, Fin 1, Fin 3, Fin 5] = Fin 3
   \<and> std_pd [NaN, Fin 1, Fin 3, Fin 5] = Fin 2"
proof -
  have m: "mean_pd [NaN, Fin 1, Fin 3, Fin 5] = Fin 3"
    by (simp add: mean_pd_def dropna_def sum_np_def Let_def)
  have "sqrt 4 = 2" using real_sqrt_four by simp
  then have d: "std_pd [NaN, Fin 1, Fin 3, Fin 5] = Fin 2"
    by (simp add: std_pd_def dropna_def sum_np_def Let_def)
  show ?thesis
    using zero_std [of s n] short_std [of s] m d
    by (auto simp add: calculate_sharpe_def)
qed

text \<open>
  The same on the net PnL column of a run that never trades, and on a column with one
  row after its leading NaN.
\<close>

theorem sharpe_guard_witness:
  "dropna [NaN, Fin 0, Fin 0, Fin 0] = replicate 3 (Fin 0) \<and> (2::nat) \<le> 3
   \<and> std_pd [NaN, Fin 0, Fin 0, Fin 0] = Fin 0
   \<and> calculate_sharpe [NaN, Fin 0, Fin 0, Fin 0] = Fin 0
   \<and> length (dropna [NaN, Fin 7]) \<le> 1
   \<and> calculate_sharpe [NaN, Fin 7] = NaN"
proof -
  have h: "dropna [NaN, Fin 0, Fin 0, Fin 0] = replicate 3 (Fin 0) \<and> (2::nat) \<le> 3"
    by (simp add: dropna_def numeral_3_eq_3)
  have k: "length (dropna [NaN, Fin 7]) \<le> 1"
    by (simp add: dropna_def)
  from sharpe_guard [of "[NaN, Fin 0, Fin 0, Fin 0]" 3] h
  have a: "std_pd [NaN, Fin 0, Fin 0, Fin 0] = Fin 0 \<and> calculate_sharpe [NaN, Fin 0, Fin 0, Fin 0] = Fin 0"
    by blast
  from sharpe_guard [of "[NaN, Fin 7]" 0] k
  have b: "calculate_sharpe [NaN, Fin 7] = NaN"
    by blast
  show ?thesis using h k a b by blast
qed

text \<open>
  C8 as stated fails on a single-element series: its sample deviation is NaN, not 0, the
  guard does not fire and the ratio is NaN.
\<close>

theorem sharpe_single_element:
  "std_pd [Fin 5] \<noteq> Fin 0 \<and> calculate_sharpe [Fin 5] = NaN \<and> calculate_sharpe [Fin 5] \<noteq> Fin 0"
  by (simp add: calculate_sharpe_def short_std dropna_def)

end
